theory Spec2Isabelle
  imports Complex_Main
begin

section \<open>Page interactions of \<open>hackathon/script.js\<close>\<close>

text \<open>
  The script drives a static landing page: a toast, a clipboard copy with a legacy
  fallback, a persisted light/dark theme, a section spy over the table of contents and
  a FAQ accordion. The browser objects the script touches (local storage, the document,
  the window's timers, class lists) are state here, passed explicitly and returned
  updated. A thrown exception is a value of type \<open>error\<close>; a function that can throw
  after it has already changed the page returns the error next to the page it leaves.

  Strings are byte lists holding the UTF-8 encoding of the JavaScript string; the
  script only compares strings, takes prefixes and strips white space, none of which
  depends on the encoding once white space is recognised on the encoded form.
\<close>

subsection \<open>Errors and \<open>mustQuery\<close>\<close>

text \<open>
  The script's own error, by its selector, and any exception a browser function throws,
  by its name.
\<close>

datatype error = MissingElement string | Thrown string

text \<open>
  \<open>mustQuery(selector)\<close>: the result of \<open>document.querySelector\<close> is the first
  argument.
\<close>

definition mustQuery :: "'a option \<Rightarrow> string \<Rightarrow> error + 'a" where
  "mustQuery el selector =
     (case el of None \<Rightarrow> Inl (MissingElement selector) | Some e \<Rightarrow> Inr e)"

subsection \<open>The page state shared by toast, copy and theme\<close>

record toast_el =
  textContent :: string
  hidden :: bool

record textarea =
  node :: nat
  ta_value :: string
  style_position :: string
  style_left :: string
  selected :: bool

text \<open>
  \<open>timers\<close> are the window's pending timeouts as (handle, delay in ms); the only callback
  the script ever schedules is the one hiding the toast. \<open>setTimeout\<close> hands out the
  handles \<open>next_timer\<close>, \<open>next_timer + 1\<close>, ...; \<open>createElement\<close> numbers fresh nodes from
  \<open>next_node\<close>. \<open>body\<close> holds the children the script appends to \<open>document.body\<close>.
\<close>

record page =
  storage :: "string \<rightharpoonup> string"
  dataset_theme :: "string option"
  toast_node :: "toast_el option"
  toast_t :: nat
  timers :: "(nat \<times> nat) list"
  next_timer :: nat
  body :: "textarea list"
  next_node :: nat

definition clearTimeout :: "nat \<Rightarrow> page \<Rightarrow> page" where
  "clearTimeout h s = s\<lparr>timers := filter (\<lambda>t. fst t \<noteq> h) (timers s)\<rparr>"

definition setTimeout :: "nat \<Rightarrow> page \<Rightarrow> nat \<times> page" where
  "setTimeout delay s =
     (next_timer s,
      s\<lparr>timers := timers s @ [(next_timer s, delay)], next_timer := next_timer s + 1\<rparr>)"

text \<open>The browser runs a pending timeout: the toast's callback sets \<open>el.hidden = true\<close>.\<close>

definition fire_timer :: "nat \<Rightarrow> page \<Rightarrow> page" where
  "fire_timer h s =
     (if h \<in> fst ` set (timers s)
      then s\<lparr>timers := filter (\<lambda>t. fst t \<noteq> h) (timers s),
             toast_node := map_option (\<lambda>el. el\<lparr>hidden := True\<rparr>) (toast_node s)\<rparr>
      else s)"

subsection \<open>\<open>toast\<close>\<close>

definition toast :: "string \<Rightarrow> page \<Rightarrow> error option \<times> page" where
  "toast message s =
     (case mustQuery (toast_node s) ''#toast'' of
        Inl e \<Rightarrow> (Some e, s)
      | Inr el \<Rightarrow>
          (let s1 = s\<lparr>toast_node := Some (el\<lparr>textContent := message, hidden := False\<rparr>)\<rparr>;
               s2 = clearTimeout (toast_t s1) s1;
               (h, s3) = setTimeout 2200 s2
           in (None, s3\<lparr>toast_t := h\<rparr>)))"

subsection \<open>Theme\<close>

definition theme_key :: string where
  "theme_key = ''hacksong_theme''"

text \<open>The two toast texts of \<open>setTheme\<close> (UTF-8).\<close>

definition msg_theme_light :: string where
  "msg_theme_light = [CHR 0xE4, CHR 0xB8, CHR 0xBB, CHR 0xE9, CHR 0xA2, CHR 0x98, CHR 0xEF,
     CHR 0xBC, CHR 0x9A, CHR 0xE4, CHR 0xBA, CHR 0xAE, CHR 0xE8, CHR 0x89, CHR 0xB2]"

definition msg_theme_dark :: string where
  "msg_theme_dark = [CHR 0xE4, CHR 0xB8, CHR 0xBB, CHR 0xE9, CHR 0xA2, CHR 0x98, CHR 0xEF,
     CHR 0xBC, CHR 0x9A, CHR 0xE6, CHR 0x9A, CHR 0x97, CHR 0xE8, CHR 0x89, CHR 0xB2]"

definition getTheme :: "page \<Rightarrow> string" where
  "getTheme s =
     (let v = storage s theme_key in if v = Some ''light'' then ''light'' else ''dark'')"

definition setTheme :: "string \<Rightarrow> page \<Rightarrow> error option \<times> page" where
  "setTheme theme s =
     (let s1 = s\<lparr>dataset_theme := Some theme\<rparr>;
          s2 = s1\<lparr>storage := (storage s1)(theme_key \<mapsto> theme)\<rparr>
      in toast (if theme = ''light'' then msg_theme_light else msg_theme_dark) s2)"

text \<open>The click handler of the \<open>#toggleTheme\<close> button.\<close>

definition toggle_click :: "page \<Rightarrow> error option \<times> page" where
  "toggle_click s =
     (let next = (if getTheme s = ''dark'' then ''light'' else ''dark'') in setTheme next s)"

text \<open>
  The first half of \<open>initThemeToggle\<close>. \<open>matchMedia\<close> is \<open>None\<close> when
  \<open>window.matchMedia\<close> is missing, otherwise the \<open>matches\<close> flag of the query
  \<open>(prefers-color-scheme: light)\<close>. \<open>!saved\<close> holds for \<open>null\<close> and for the empty string.
\<close>

definition falsy_string :: "string option \<Rightarrow> bool" where
  "falsy_string v = (v = None \<or> v = Some [])"

definition init_theme :: "bool option \<Rightarrow> page \<Rightarrow> page" where
  "init_theme matchMedia s =
     (let saved = storage s theme_key in
      if falsy_string saved then
        (let prefersLight = (matchMedia = Some True)
         in s\<lparr>dataset_theme := Some (if prefersLight then ''light'' else ''dark'')\<rparr>)
      else s\<lparr>dataset_theme := Some (getTheme s)\<rparr>)"

text \<open>
  The page as the script finds it when it is loaded (\<open>toast._t = 0\<close>, no timeout
  pending, nothing stored), with a hidden, empty toast element.
\<close>

definition page_at_load :: page where
  "page_at_load = \<lparr>storage = Map.empty, dataset_theme = None,
     toast_node = Some \<lparr>textContent = [], hidden = True\<rparr>, toast_t = 0, timers = [],
     next_timer = 1, body = [], next_node = 0\<rparr>"

subsection \<open>The toast over time\<close>

text \<open>
  What can happen to the toast: the script calls \<open>toast(message)\<close>, or the browser
  runs a timeout. A call that throws leaves the page as it is (see \<open>toast\<close>).
\<close>

datatype toast_event = CallToast string | TimerFires nat

fun toast_step :: "toast_event \<Rightarrow> page \<Rightarrow> page" where
  "toast_step (CallToast message) s = snd (toast message s)"
| "toast_step (TimerFires h) s = fire_timer h s"

definition run_toast :: "toast_event list \<Rightarrow> page \<Rightarrow> page" where
  "run_toast evs s = fold toast_step evs s"

text \<open>
  The pending timeouts are none, or exactly the one whose handle \<open>toast._t\<close> holds, with
  the fixed delay; every handle given out so far is below \<open>next_timer\<close>.
\<close>

definition single_timer :: "page \<Rightarrow> bool" where
  "single_timer s =
     ((timers s = [] \<or> timers s = [(toast_t s, 2200)]) \<and> toast_t s < next_timer s)"

subsection \<open>\<open>copyToClipboard\<close>\<close>

text \<open>The fields \<open>text\<close> and \<open>label\<close> of a \<open>CopyTarget\<close>.\<close>

record CopyTarget =
  copy_text :: string
  copy_label :: string

text \<open>The two suffixes of the copy toasts (UTF-8): copied, and copy failed.\<close>

definition msg_copied :: string where
  "msg_copied = [CHR 0xEF, CHR 0xBC, CHR 0x9A, CHR 0xE5, CHR 0xB7, CHR 0xB2, CHR 0xE5, CHR 0xA4,
     CHR 0x8D, CHR 0xE5, CHR 0x88, CHR 0xB6]"

definition msg_copy_failed :: string where
  "msg_copy_failed = [CHR 0xEF, CHR 0xBC, CHR 0x9A, CHR 0xE5, CHR 0xA4, CHR 0x8D, CHR 0xE5,
     CHR 0x88, CHR 0xB6, CHR 0xE5, CHR 0xA4, CHR 0xB1, CHR 0xE8, CHR 0xB4, CHR 0xA5, CHR 0xEF,
     CHR 0xBC, CHR 0x88, CHR 0xE8, CHR 0xAF, CHR 0xB7, CHR 0xE6, CHR 0x89, CHR 0x8B, CHR 0xE5,
     CHR 0x8A, CHR 0xA8, CHR 0xE5, CHR 0xA4, CHR 0x8D, CHR 0xE5, CHR 0x88, CHR 0xB6, CHR 0xEF,
     CHR 0xBC, CHR 0x89]"

definition createElement :: "page \<Rightarrow> textarea \<times> page" where
  "createElement s =
     (\<lparr>node = next_node s, ta_value = [], style_position = [], style_left = [],
       selected = False\<rparr>,
      s\<lparr>next_node := next_node s + 1\<rparr>)"

definition appendChild :: "textarea \<Rightarrow> page \<Rightarrow> page" where
  "appendChild ta s = s\<lparr>body := body s @ [ta]\<rparr>"

text \<open>\<open>ta.select()\<close> acts on the element object, which by now is a child of the body.\<close>

definition select_node :: "nat \<Rightarrow> page \<Rightarrow> page" where
  "select_node n s =
     s\<lparr>body := map (\<lambda>c. if node c = n then c\<lparr>selected := True\<rparr> else c) (body s)\<rparr>"

definition removeChild :: "nat \<Rightarrow> page \<Rightarrow> page" where
  "removeChild n s = s\<lparr>body := filter (\<lambda>c. node c \<noteq> n) (body s)\<rparr>"

text \<open>
  \<open>document.execCommand("copy")\<close> is the browser's: it reads the document, and it
  returns a boolean or throws (the command is deprecated and may be missing or
  refused). It is an argument of the model, a function of the page at the call.
\<close>

datatype exec_result = Returns bool | Throws error

text \<open>
  The fallback of the \<open>catch\<close> branch, in two parts: up to \<open>ta.select()\<close>, which is
  the page \<open>execCommand\<close> sees, and from there on. The source has no \<open>try\<close> around
  \<open>execCommand\<close>: an exception of it ends the function at that point.
\<close>

definition fallback_attach :: "CopyTarget \<Rightarrow> page \<Rightarrow> nat \<times> page" where
  "fallback_attach target s =
     (let (ta, s1) = createElement s;
          ta1 = ta\<lparr>ta_value := copy_text target, style_position := ''fixed'',
                   style_left := ''-9999px''\<rparr>;
          s2 = appendChild ta1 s1;
          s3 = select_node (node ta1) s2
      in (node ta1, s3))"

definition copy_fallback ::
    "CopyTarget \<Rightarrow> (page \<Rightarrow> exec_result) \<Rightarrow> page \<Rightarrow> error option \<times> page" where
  "copy_fallback target execCommand s =
     (let (ta, s3) = fallback_attach target s
      in case execCommand s3 of
           Throws e \<Rightarrow> (Some e, s3)
         | Returns ok \<Rightarrow>
             (let s4 = removeChild ta s3
              in toast (if ok then copy_label target @ msg_copied
                        else copy_label target @ msg_copy_failed) s4))"

text \<open>
  \<open>copyToClipboard\<close> from the point where the promise of \<open>writeText\<close> settles; \<open>s\<close> is
  the page at that moment. \<open>Rejected\<close> also stands for \<open>navigator.clipboard\<close> being
  undefined, where the call throws inside the \<open>try\<close>. An error thrown by the toast of
  the \<open>try\<close> branch is caught by the same \<open>catch\<close>.
\<close>

datatype write_outcome = Resolved | Rejected

definition copyToClipboard ::
    "CopyTarget \<Rightarrow> write_outcome \<Rightarrow> (page \<Rightarrow> exec_result) \<Rightarrow> page \<Rightarrow>
       error option \<times> page" where
  "copyToClipboard target outcome execCommand s =
     (case outcome of
        Resolved \<Rightarrow>
          (case toast (copy_label target @ msg_copied) s of
             (None, s') \<Rightarrow> (None, s')
           | (Some e, s') \<Rightarrow> copy_fallback target execCommand s')
      | Rejected \<Rightarrow> copy_fallback target execCommand s)"

text \<open>Every node attached to the body was handed out by \<open>createElement\<close> before.\<close>

definition nodes_known :: "page \<Rightarrow> bool" where
  "nodes_known s = list_all (\<lambda>c. node c < next_node s) (body s)"

subsection \<open>String operations of the section spy\<close>

text \<open>
  The code points \<open>String.prototype.trim\<close> strips (WhiteSpace and LineTerminator of
  ECMAScript), each as its UTF-8 bytes: TAB, LF, VT, FF, CR, SPACE, U+00A0, U+1680,
  U+2000 to U+200A, U+2028, U+2029, U+202F, U+205F, U+3000, U+FEFF.
\<close>

definition white_space :: "string list" where
  "white_space =
     [[CHR 0x09], [CHR 0x0A], [CHR 0x0B], [CHR 0x0C], [CHR 0x0D], [CHR 0x20],
      [CHR 0xC2, CHR 0xA0], [CHR 0xE1, CHR 0x9A, CHR 0x80],
      [CHR 0xE2, CHR 0x80, CHR 0x80], [CHR 0xE2, CHR 0x80, CHR 0x81],
      [CHR 0xE2, CHR 0x80, CHR 0x82], [CHR 0xE2, CHR 0x80, CHR 0x83],
      [CHR 0xE2, CHR 0x80, CHR 0x84], [CHR 0xE2, CHR 0x80, CHR 0x85],
      [CHR 0xE2, CHR 0x80, CHR 0x86], [CHR 0xE2, CHR 0x80, CHR 0x87],
      [CHR 0xE2, CHR 0x80, CHR 0x88], [CHR 0xE2, CHR 0x80, CHR 0x89],
      [CHR 0xE2, CHR 0x80, CHR 0x8A], [CHR 0xE2, CHR 0x80, CHR 0xA8],
      [CHR 0xE2, CHR 0x80, CHR 0xA9], [CHR 0xE2, CHR 0x80, CHR 0xAF],
      [CHR 0xE2, CHR 0x81, CHR 0x9F], [CHR 0xE3, CHR 0x80, CHR 0x80],
      [CHR 0xEF, CHR 0xBB, CHR 0xBF]]"

text \<open>Drop leading occurrences of the given (non-empty) sequences until none is left.\<close>

function strip_leading :: "string list \<Rightarrow> string \<Rightarrow> string" where
  "strip_leading ws s =
     (case find (\<lambda>w. w \<noteq> [] \<and> take (length w) s = w) ws of
        None \<Rightarrow> s
      | Some w \<Rightarrow> strip_leading ws (drop (length w) s))"
  by pat_completeness auto
termination
proof (relation "measure (\<lambda>(ws, s). length s)")
  show "wf (measure (\<lambda>(ws, s). length s))" by simp
next
  fix ws :: "string list" and s w :: string
  assume "find (\<lambda>w. w \<noteq> [] \<and> take (length w) s = w) ws = Some w"
  then have "w \<noteq> []" and "take (length w) s = w"
    by (auto simp: find_Some_iff)
  then have "0 < length w" and "length w \<le> length s"
    by (auto simp: min_def dest: arg_cong [where f = length] split: if_splits)
  then have "length s - length w < length s"
    by arith
  then show "((ws, drop (length w) s), (ws, s)) \<in> measure (\<lambda>(ws, s). length s)"
    by simp
qed

declare strip_leading.simps [simp del]

definition trim :: "string \<Rightarrow> string" where
  "trim s = rev (strip_leading (map rev white_space) (rev (strip_leading white_space s)))"

text \<open>\<open>s.replace("#", "")\<close>: a string pattern replaces its first occurrence only.\<close>

fun replace_hash :: "string \<Rightarrow> string" where
  "replace_hash [] = []"
| "replace_hash (c # cs) = (if c = CHR ''#'' then cs else c # replace_hash cs)"

text \<open>\<open>v || ""\<close> for an attribute value that may be \<open>null\<close>.\<close>

definition or_empty :: "string option \<Rightarrow> string" where
  "or_empty v = (case v of None \<Rightarrow> [] | Some x \<Rightarrow> x)"

subsection \<open>The section spy\<close>

record anchor =
  href :: "string option"
  classList :: "string list"

text \<open>The key under which \<open>initTocSpy\<close> files an anchor.\<close>

definition link_id :: "anchor \<Rightarrow> string" where
  "link_id a = trim (replace_hash (or_empty (href a)))"

text \<open>
  A JavaScript \<open>Map\<close> as an association list in insertion order: \<open>set\<close> overwrites
  the value of a key that is there and appends a new key. The values of \<open>idToLink\<close> are
  anchors of \<open>links\<close>, kept here as positions in that list.
\<close>

fun map_set :: "'k \<Rightarrow> 'v \<Rightarrow> ('k \<times> 'v) list \<Rightarrow> ('k \<times> 'v) list" where
  "map_set k v [] = [(k, v)]"
| "map_set k v (p # ps) = (if fst p = k then (k, v) # ps else p # map_set k v ps)"

definition map_get :: "('k \<times> 'v) list \<Rightarrow> 'k \<Rightarrow> 'v option" where
  "map_get m k = map_of m k"

text \<open>The \<open>links.forEach\<close> that fills \<open>idToLink\<close>; \<open>i\<close> is the position of the next anchor.\<close>

fun index_links :: "anchor list \<Rightarrow> nat \<Rightarrow> (string \<times> nat) list \<Rightarrow> (string \<times> nat) list" where
  "index_links [] i m = m"
| "index_links (a # as) i m =
     index_links as (i + 1) (let k = link_id a in if k \<noteq> [] then map_set k i m else m)"

text \<open>
  \<open>document.getElementById\<close> over the ids present in the document; an element is
  known by its id, and no element has the empty id.
\<close>

definition getElementById :: "string list \<Rightarrow> string \<Rightarrow> string option" where
  "getElementById ids k = (if k \<noteq> [] \<and> k \<in> set ids then Some k else None)"

record toc =
  links :: "anchor list"
  idToLink :: "(string \<times> nat) list"
  sections :: "string list"
  doc_ids :: "string list"

text \<open>
  \<open>initTocSpy\<close> up to the observer: the first argument is the \<open>#toc\<close> element, given
  by its anchors, or \<open>None\<close> when the page has none. The state keeps the ids of the
  document's elements in \<open>doc_ids\<close> for the click handler's \<open>getElementById\<close>; the
  script never adds or removes an element with an id.
\<close>

definition initTocSpy :: "anchor list option \<Rightarrow> string list \<Rightarrow> error + toc" where
  "initTocSpy toc_el ids =
     (case mustQuery toc_el ''#toc'' of
        Inl e \<Rightarrow> Inl e
      | Inr as \<Rightarrow>
          (let m = index_links as 0 []
           in Inr \<lparr>links = as, idToLink = m,
                   sections = List.map_filter (getElementById ids) (map fst m),
                   doc_ids = ids\<rparr>))"

definition remove_token :: "string \<Rightarrow> string list \<Rightarrow> string list" where
  "remove_token tok cl = removeAll tok cl"

definition add_token :: "string \<Rightarrow> string list \<Rightarrow> string list" where
  "add_token tok cl = (if tok \<in> set cl then cl else cl @ [tok])"

definition setActive :: "string \<Rightarrow> toc \<Rightarrow> toc" where
  "setActive activeId t =
     (let ls = map (\<lambda>a. a\<lparr>classList := remove_token ''is-active'' (classList a)\<rparr>) (links t)
      in case map_get (idToLink t) activeId of
           None \<Rightarrow> t\<lparr>links := ls\<rparr>
         | Some i \<Rightarrow>
             t\<lparr>links := ls[i := (ls ! i)\<lparr>classList := add_token ''is-active'' (classList (ls ! i))\<rparr>]\<rparr>)"

text \<open>
  An \<open>IntersectionObserverEntry\<close>: \<open>target\<close> is the id of the observed element (an
  entry always has a target element). The ratio is a number between 0 and 1; the
  comparator only uses the sign of a difference of two ratios, which for such numbers
  is their order, so the ratio is a real here.
\<close>

record entry =
  isIntersecting :: bool
  intersectionRatio :: real
  target :: string

definition or_zero :: "real \<Rightarrow> real" where
  "or_zero r = (if r = 0 then 0 else r)"

text \<open>
  The observer's callback. \<open>Array.prototype.sort\<close> is stable; with the comparator
  \<open>(a, b) => rb - ra\<close> it orders by falling ratio, which is the stable insertion sort
  on the negated ratio. Of the test \<open>top && top.target && top.target.id\<close> the first
  part is the case distinction on the sorted list and the last the test for a
  non-empty id.
\<close>

definition io_callback :: "entry list \<Rightarrow> toc \<Rightarrow> toc" where
  "io_callback entries t =
     (let visible = sort_key (\<lambda>e. - or_zero (intersectionRatio e))
                      (filter isIntersecting entries)
      in case visible of
           [] \<Rightarrow> t
         | first # _ \<Rightarrow> if target first \<noteq> [] then setActive (target first) t else t)"

text \<open>
  A click inside \<open>#toc\<close>, by what the handler asks of its target: whether the target
  is an \<open>HTMLElement\<close> (an \<open>svg\<close> inside a link is not), and the nearest anchor
  around the target: none, the anchor at a position of \<open>links\<close>, or an anchor that is
  not one of \<open>links\<close> (an ancestor of \<open>#toc\<close>), given by its \<open>href\<close> attribute.
\<close>

datatype click_target = NoAnchor | TocLink nat | OtherAnchor "string option"

record click =
  target_is_html :: bool
  nearest_anchor :: click_target

text \<open>
  \<open>e.target instanceof HTMLElement ? e.target.closest("a") : null\<close>, as the \<open>href\<close>
  attribute of the anchor found.
\<close>

definition closest_a :: "click \<Rightarrow> toc \<Rightarrow> string option option" where
  "closest_a c t =
     (if target_is_html c then
        (case nearest_anchor c of
           NoAnchor \<Rightarrow> None
         | TocLink i \<Rightarrow> if i < length (links t) then Some (href (links t ! i)) else None
         | OtherAnchor h \<Rightarrow> Some h)
      else None)"

record click_effect =
  defaultPrevented :: bool
  scrolledIntoView :: "string option"

definition no_effect :: click_effect where
  "no_effect = \<lparr>defaultPrevented = False, scrolledIntoView = None\<rparr>"

definition toc_click :: "click \<Rightarrow> toc \<Rightarrow> click_effect \<times> toc" where
  "toc_click c t =
     (case closest_a c t of
        None \<Rightarrow> (no_effect, t)
      | Some h \<Rightarrow>
          (let hr = or_empty h in
           if take 1 hr \<noteq> ''#'' then (no_effect, t)
           else (let k = drop 1 hr in
                 case getElementById (doc_ids t) k of
                   None \<Rightarrow> (no_effect, t)
                 | Some el \<Rightarrow>
                     (\<lparr>defaultPrevented = True, scrolledIntoView = Some el\<rparr>, setActive k t))))"

datatype spy_event = Intersections "entry list" | Click click

fun spy_step :: "spy_event \<Rightarrow> toc \<Rightarrow> toc" where
  "spy_step (Intersections entries) t = io_callback entries t"
| "spy_step (Click c) t = snd (toc_click c t)"

definition run_spy :: "spy_event list \<Rightarrow> toc \<Rightarrow> toc" where
  "run_spy evs t = fold spy_step evs t"

definition is_active :: "anchor \<Rightarrow> bool" where
  "is_active a = (''is-active'' \<in> set (classList a))"

definition count_active :: "toc \<Rightarrow> nat" where
  "count_active t = length (filter is_active (links t))"

text \<open>
  The closure state \<open>initTocSpy\<close> sets up and no handler changes: \<open>idToLink\<close> indexes
  the anchors of \<open>links\<close>, and the observed sections are keys of it.
\<close>

definition toc_built :: "toc \<Rightarrow> bool" where
  "toc_built t =
     (idToLink t = index_links (links t) 0 [] \<and>
      list_all (\<lambda>k. k \<in> fst ` set (idToLink t)) (sections t))"

subsection \<open>The accordion\<close>

text \<open>
  The elements the accordion handler can reach, as a store from references to elements:
  \<open>nextElementSibling\<close> is a reference, \<open>is_html\<close> says whether the element is an
  \<open>HTMLElement\<close>.
\<close>

record acc_el =
  aria_expanded :: "string option"
  el_hidden :: bool
  is_html :: bool
  nextElementSibling :: "nat option"

text \<open>
  The delegated click handler. Its first argument is what
  \<open>e.target.closest("button.acc__item")\<close> finds: a trigger button, or nothing (also
  when the target is no \<open>HTMLElement\<close>).
\<close>

definition acc_click :: "nat option \<Rightarrow> (nat \<Rightarrow> acc_el) \<Rightarrow> (nat \<Rightarrow> acc_el)" where
  "acc_click closest_btn els =
     (case closest_btn of
        None \<Rightarrow> els
      | Some btn \<Rightarrow>
          (case nextElementSibling (els btn) of
             None \<Rightarrow> els
           | Some panel \<Rightarrow>
               if \<not> is_html (els panel) then els
               else (let expanded = (aria_expanded (els btn) = Some ''true'');
                         els1 = els(btn := (els btn)\<lparr>aria_expanded :=
                                   Some (if expanded then ''false'' else ''true'')\<rparr>)
                     in els1(panel := (els1 panel)\<lparr>el_hidden := expanded\<rparr>))))"

subsection \<open>\<open>main\<close>\<close>

text \<open>
  What the markup offers to the initialisers: the anchors of \<open>#toc\<close> if the page has
  that element, the ids of the document, whether an element with a \<open>data-accordion\<close>
  attribute exists, and for each id whose element is an \<open>HTMLButtonElement\<close> its
  \<open>data-copy\<close> attribute. The toast element is part of the page state.
\<close>

record dom =
  toc_anchors :: "anchor list option"
  element_ids :: "string list"
  has_accordion :: bool
  buttons :: "string \<rightharpoonup> string option"

text \<open>The handlers and observers an initialiser registers.\<close>

datatype listener =
    ToggleThemeClick
  | SectionObserver "string list"
  | TocClick
  | AccordionClick
  | CopyClick string CopyTarget
  | ScrollFlowClick
  | BackTopClick

record app =
  app_page :: page
  listeners :: "listener list"
  spy :: "toc option"

definition addEventListener :: "listener \<Rightarrow> app \<Rightarrow> app" where
  "addEventListener l a = a\<lparr>listeners := listeners a @ [l]\<rparr>"

definition initThemeToggle :: "dom \<Rightarrow> bool option \<Rightarrow> app \<Rightarrow> app" where
  "initThemeToggle d matchMedia a =
     (let a1 = a\<lparr>app_page := init_theme matchMedia (app_page a)\<rparr>
      in if buttons d ''toggleTheme'' = None then a1
         else addEventListener ToggleThemeClick a1)"

definition initTocSpy_app :: "dom \<Rightarrow> app \<Rightarrow> error + app" where
  "initTocSpy_app d a =
     (case initTocSpy (toc_anchors d) (element_ids d) of
        Inl e \<Rightarrow> Inl e
      | Inr t \<Rightarrow>
          Inr (addEventListener TocClick
                (addEventListener (SectionObserver (sections t)) (a\<lparr>spy := Some t\<rparr>))))"

definition initAccordion :: "dom \<Rightarrow> app \<Rightarrow> app" where
  "initAccordion d a = (if \<not> has_accordion d then a else addEventListener AccordionClick a)"

text \<open>The labels and placeholder lines of \<open>initCopyButtons\<close> (UTF-8).\<close>

definition label_signup :: string where
  "label_signup = [CHR 0xE6, CHR 0x8A, CHR 0xA5, CHR 0xE5, CHR 0x90, CHR 0x8D, CHR 0xE5,
     CHR 0x85, CHR 0xA5, CHR 0xE5, CHR 0x8F, CHR 0xA3]"

definition label_repo :: string where
  "label_repo = [CHR 0xE6, CHR 0xA8, CHR 0xA1, CHR 0xE6, CHR 0x9D, CHR 0xBF, CHR 0xE4,
     CHR 0xBB, CHR 0x93, CHR 0xE5, CHR 0xBA, CHR 0x93]"

definition label_checklist :: string where
  "label_checklist = [CHR 0xE4, CHR 0xBA, CHR 0xA4, CHR 0xE4, CHR 0xBB, CHR 0x98, CHR 0xE6,
     CHR 0xB8, CHR 0x85, CHR 0xE5, CHR 0x8D, CHR 0x95]"

definition line_signup :: string where
  "line_signup = [CHR 0xE3, CHR 0x80, CHR 0x90, CHR 0xE6, CHR 0x8A, CHR 0xA5, CHR 0xE5,
     CHR 0x90, CHR 0x8D, CHR 0xE9, CHR 0x93, CHR 0xBE, CHR 0xE6, CHR 0x8E, CHR 0xA5,
     CHR 0xE5, CHR 0x8D, CHR 0xA0, CHR 0xE4, CHR 0xBD, CHR 0x8D, CHR 0xE3, CHR 0x80,
     CHR 0x91]"

definition line_repo :: string where
  "line_repo = [CHR 0xE3, CHR 0x80, CHR 0x90, CHR 0xE9, CHR 0xA1, CHR 0xB9, CHR 0xE7,
     CHR 0x9B, CHR 0xAE, CHR 0xE4, CHR 0xBB, CHR 0x93, CHR 0xE5, CHR 0xBA, CHR 0x93,
     CHR 0xE5, CHR 0x8D, CHR 0xA0, CHR 0xE4, CHR 0xBD, CHR 0x8D, CHR 0xE3, CHR 0x80,
     CHR 0x91]"

definition line_material :: string where
  "line_material = [CHR 0xE3, CHR 0x80, CHR 0x90, CHR 0xE8, CHR 0xB5, CHR 0x84, CHR 0xE6,
     CHR 0x96, CHR 0x99, CHR 0xE9, CHR 0x93, CHR 0xBE, CHR 0xE6, CHR 0x8E, CHR 0xA5,
     CHR 0xE5, CHR 0x8D, CHR 0xA0, CHR 0xE4, CHR 0xBD, CHR 0x8D, CHR 0xEF, CHR 0xBC,
     CHR 0x9A, CHR 0xE8, CHR 0xB5, CHR 0x9B, CHR 0xE9, CHR 0xA2, CHR 0x98, CHR 0x2F,
     CHR 0xE8, CHR 0xA7, CHR 0x84, CHR 0xE5, CHR 0x88, CHR 0x99, CHR 0x2F, CHR 0xE8,
     CHR 0xB5, CHR 0x84, CHR 0xE6, CHR 0xBA, CHR 0x90, CHR 0xE3, CHR 0x80, CHR 0x91]"

definition line_channel :: string where
  "line_channel = [CHR 0xE3, CHR 0x80, CHR 0x90, CHR 0xE4, CHR 0xBA, CHR 0xA4, CHR 0xE6,
     CHR 0xB5, CHR 0x81, CHR 0xE6, CHR 0xB8, CHR 0xA0, CHR 0xE9, CHR 0x81, CHR 0x93,
     CHR 0xE5, CHR 0x8D, CHR 0xA0, CHR 0xE4, CHR 0xBD, CHR 0x8D, CHR 0xEF, CHR 0xBC,
     CHR 0x9A, CHR 0xE7, CHR 0xBE, CHR 0xA4, CHR 0x2F, CHR 0xE9, CHR 0xA3, CHR 0x9E,
     CHR 0xE4, CHR 0xB9, CHR 0xA6, CHR 0x2F, CHR 0x44, CHR 0x69, CHR 0x73, CHR 0x63,
     CHR 0x6F, CHR 0x72, CHR 0x64, CHR 0xE3, CHR 0x80, CHR 0x91]"

definition label_all :: string where
  "label_all = [CHR 0xE9, CHR 0x93, CHR 0xBE, CHR 0xE6, CHR 0x8E, CHR 0xA5, CHR 0xE5,
     CHR 0x8D, CHR 0xA0, CHR 0xE4, CHR 0xBD, CHR 0x8D, CHR 0xE5, CHR 0x90, CHR 0x88,
     CHR 0xE9, CHR 0x9B, CHR 0x86]"

definition bind :: "dom \<Rightarrow> string \<Rightarrow> string \<Rightarrow> app \<Rightarrow> app" where
  "bind d ident lbl a =
     (case buttons d ident of
        None \<Rightarrow> a
      | Some data_copy \<Rightarrow>
          addEventListener
            (CopyClick ident \<lparr>copy_text = or_empty data_copy, copy_label = lbl\<rparr>) a)"

text \<open>\<open>lines.join("\n")\<close>.\<close>

fun join_lines :: "string list \<Rightarrow> string" where
  "join_lines [] = []"
| "join_lines [l] = l"
| "join_lines (l # ls) = l @ [CHR 0x0A] @ join_lines ls"

definition initCopyButtons :: "dom \<Rightarrow> app \<Rightarrow> app" where
  "initCopyButtons d a =
     (let a1 = bind d ''copySignup'' label_signup a;
          a2 = bind d ''copyRepo'' label_repo a1;
          a3 = bind d ''copyChecklist'' label_checklist a2
      in if buttons d ''copyAllLinks'' = None then a3
         else addEventListener
                (CopyClick ''copyAllLinks''
                  \<lparr>copy_text = join_lines [line_signup, line_repo, line_material, line_channel],
                   copy_label = label_all\<rparr>) a3)"

definition initQuickScroll :: "dom \<Rightarrow> app \<Rightarrow> app" where
  "initQuickScroll d a =
     (let a1 = (if buttons d ''scrollFlow'' = None then a
                else addEventListener ScrollFlowClick a)
      in if buttons d ''backTop'' = None then a1 else addEventListener BackTopClick a1)"

text \<open>
  \<open>main\<close> runs the five initialisers in order; an error thrown by one of them ends it,
  leaving what the earlier ones did.
\<close>

definition main :: "dom \<Rightarrow> bool option \<Rightarrow> app \<Rightarrow> error option \<times> app" where
  "main d matchMedia a =
     (let a1 = initThemeToggle d matchMedia a
      in case initTocSpy_app d a1 of
           Inl e \<Rightarrow> (Some e, a1)
         | Inr a2 \<Rightarrow> (None, initQuickScroll d (initCopyButtons d (initAccordion d a2))))"

text \<open>The application before \<open>main\<close>, on a given page.\<close>

definition app_start :: "page \<Rightarrow> app" where
  "app_start p = \<lparr>app_page = p, listeners = [], spy = None\<rparr>"

text \<open>Two pages for the examples.\<close>

definition example_links :: "anchor list" where
  "example_links =
     [\<lparr>href = Some ''#intro'', classList = [''is-active'']\<rparr>,
      \<lparr>href = Some ''#flow'', classList = []\<rparr>,
      \<lparr>href = Some ''#faq'', classList = [''toc__link'']\<rparr>,
      \<lparr>href = Some ''https://example.org/'', classList = []\<rparr>]"

definition example_toc :: toc where
  "example_toc =
     \<lparr>links = example_links,
      idToLink = [(''intro'', 0), (''flow'', 1), (''faq'', 2), (''https://example.org/'', 3)],
      sections = [''intro'', ''flow'', ''faq''],
      doc_ids = [''toast'', ''toc'', ''intro'', ''flow'', ''faq'']\<rparr>"

definition example_dom :: dom where
  "example_dom =
     \<lparr>toc_anchors = Some example_links,
      element_ids = [''toast'', ''toc'', ''intro'', ''flow'', ''faq''],
      has_accordion = False,
      buttons = [''toggleTheme'' \<mapsto> None]\<rparr>"

definition example_entries :: "entry list" where
  "example_entries =
     [\<lparr>isIntersecting = True, intersectionRatio = 0.2, target = ''intro''\<rparr>,
      \<lparr>isIntersecting = True, intersectionRatio = 0.6, target = ''flow''\<rparr>,
      \<lparr>isIntersecting = False, intersectionRatio = 0, target = ''zzz''\<rparr>,
      \<lparr>isIntersecting = True, intersectionRatio = 0.4, target = ''faq''\<rparr>]"




text \<open>A table of contents whose markup marks two links, and a one-item FAQ.\<close>

definition two_marked :: toc where
  "two_marked =
     \<lparr>links = [\<lparr>href = Some ''#a'', classList = [''is-active'']\<rparr>,
               \<lparr>href = Some ''#b'', classList = [''is-active'']\<rparr>],
      idToLink = [(''a'', 0), (''b'', 1)],
      sections = [''a'', ''b''],
      doc_ids = [''a'', ''b'']\<rparr>"

definition example_faq :: "nat \<Rightarrow> acc_el" where
  "example_faq n =
     (if n = 0
      then \<lparr>aria_expanded = Some ''false'', el_hidden = False, is_html = True,
             nextElementSibling = Some 1\<rparr>
      else \<lparr>aria_expanded = None, el_hidden = True, is_html = True,
             nextElementSibling = None\<rparr>)"

section \<open>Theorems\<close>

text \<open>
  C6. Whatever the storage holds under the theme key, \<open>getTheme\<close> returns \<open>light\<close> or
  \<open>dark\<close>, and it returns \<open>dark\<close> whenever the stored value is not exactly the string
  \<open>light\<close> (absent included).
\<close>

theorem getTheme_light_or_dark:
  "(getTheme s = ''light'' \<or> getTheme s = ''dark'') \<and>
   (storage s theme_key \<noteq> Some ''light'' \<longrightarrow> getTheme s = ''dark'')"
  by (simp add: getTheme_def)

theorem getTheme_light_or_dark_witness:
  "storage (page_at_load\<lparr>storage := [theme_key \<mapsto> ''blue'']\<rparr>) theme_key \<noteq> Some ''light'' \<and>
   getTheme (page_at_load\<lparr>storage := [theme_key \<mapsto> ''blue'']\<rparr>) = ''dark''"
  using getTheme_light_or_dark [of "page_at_load\<lparr>storage := [theme_key \<mapsto> ''blue'']\<rparr>"]
  by (simp add: page_at_load_def)

subsection \<open>What a toast leaves alone\<close>

lemma toast_storage: "storage (snd (toast m s)) = storage s"
  by (simp add: toast_def mustQuery_def setTimeout_def clearTimeout_def split: option.splits)

lemma toast_dataset: "dataset_theme (snd (toast m s)) = dataset_theme s"
  by (simp add: toast_def mustQuery_def setTimeout_def clearTimeout_def split: option.splits)

lemma toast_body: "body (snd (toast m s)) = body s"
  by (simp add: toast_def mustQuery_def setTimeout_def clearTimeout_def split: option.splits)

lemma toast_next_node: "next_node (snd (toast m s)) = next_node s"
  by (simp add: toast_def mustQuery_def setTimeout_def clearTimeout_def split: option.splits)

lemma setTheme_storage: "storage (snd (setTheme t s)) = (storage s)(theme_key \<mapsto> t)"
  by (simp add: setTheme_def toast_storage)

lemma setTheme_dataset: "dataset_theme (snd (setTheme t s)) = Some t"
  by (simp add: setTheme_def toast_dataset)

text \<open>
  C7. The toggle reads the current theme with \<open>getTheme\<close>, which is always \<open>light\<close> or
  \<open>dark\<close>. From any page, the first click stores and applies the other value, the second
  click stores and applies the value \<open>getTheme\<close> gave at the start, and \<open>getTheme\<close> is
  back at that value; this holds whether or not the toast of \<open>setTheme\<close> throws. When
  the stored value is \<open>light\<close> or \<open>dark\<close>, the first click stores the other one and
  the second click stores the original one again. (The
  value toggled is the one \<open>getTheme\<close> reads from storage, not the attribute on the
  document: after a startup without a stored value that followed a light system
  preference, \<open>getTheme\<close> is \<open>dark\<close> and the first click applies \<open>light\<close>.)
\<close>

theorem toggle_twice_restores:
  "getTheme (snd (toggle_click (snd (toggle_click s)))) = getTheme s \<and>
   storage (snd (toggle_click s)) theme_key =
     Some (if getTheme s = ''dark'' then ''light'' else ''dark'') \<and>
   dataset_theme (snd (toggle_click s)) =
     Some (if getTheme s = ''dark'' then ''light'' else ''dark'') \<and>
   storage (snd (toggle_click (snd (toggle_click s)))) theme_key = Some (getTheme s) \<and>
   dataset_theme (snd (toggle_click (snd (toggle_click s)))) = Some (getTheme s) \<and>
   (storage s theme_key = Some ''light'' \<or> storage s theme_key = Some ''dark'' \<longrightarrow>
      storage (snd (toggle_click (snd (toggle_click s)))) theme_key = storage s theme_key \<and>
      storage (snd (toggle_click s)) theme_key \<noteq> storage s theme_key)"
  by (auto simp: toggle_click_def setTheme_storage setTheme_dataset getTheme_def Let_def)

theorem toggle_twice_restores_witness:
  "getTheme (page_at_load\<lparr>storage := [theme_key \<mapsto> ''light'']\<rparr>) = ''light'' \<and>
   storage (snd (toggle_click (page_at_load\<lparr>storage := [theme_key \<mapsto> ''light'']\<rparr>))) theme_key
     = Some ''dark'' \<and>
   storage (snd (toggle_click (snd (toggle_click
     (page_at_load\<lparr>storage := [theme_key \<mapsto> ''light'']\<rparr>))))) theme_key = Some ''light'' \<and>
   dataset_theme (snd (toggle_click (snd (toggle_click
     (page_at_load\<lparr>storage := [theme_key \<mapsto> ''light'']\<rparr>))))) = Some ''light''"
  using toggle_twice_restores [of "page_at_load\<lparr>storage := [theme_key \<mapsto> ''light'']\<rparr>"]
  by (simp add: getTheme_def page_at_load_def)

text \<open>
  C3, as the code has it. At startup the document theme is: with nothing stored under the
  key (or the empty string), \<open>light\<close> exactly when the system preference is known to be
  light and \<open>dark\<close> otherwise; with a non-empty stored value, \<open>light\<close> when that value is
  exactly \<open>light\<close> and \<open>dark\<close> for every other value, whatever the system prefers. A
  stored value other than \<open>light\<close> and \<open>dark\<close> is therefore not treated as absent.
\<close>

theorem startup_theme:
  "dataset_theme (init_theme mm s) =
     Some (if storage s theme_key = None \<or> storage s theme_key = Some []
           then (if mm = Some True then ''light'' else ''dark'')
           else if storage s theme_key = Some ''light'' then ''light'' else ''dark'')"
  by (simp add: init_theme_def falsy_string_def getTheme_def Let_def)

theorem startup_theme_witness:
  "dataset_theme (init_theme (Some False) (page_at_load\<lparr>storage := [theme_key \<mapsto> ''light'']\<rparr>))
     = Some ''light'' \<and>
   dataset_theme (init_theme (Some True) (page_at_load\<lparr>storage := [theme_key \<mapsto> ''dark'']\<rparr>))
     = Some ''dark'' \<and>
   dataset_theme (init_theme (Some True) page_at_load) = Some ''light'' \<and>
   dataset_theme (init_theme None page_at_load) = Some ''dark''"
  using startup_theme [of "Some False" "page_at_load\<lparr>storage := [theme_key \<mapsto> ''light'']\<rparr>"]
    startup_theme [of "Some True" "page_at_load\<lparr>storage := [theme_key \<mapsto> ''dark'']\<rparr>"]
    startup_theme [of "Some True" page_at_load] startup_theme [of None page_at_load]
  by (simp add: page_at_load_def theme_key_def)

text \<open>
  C3 as the claim has it fails: with the system preferring light, a stored \<open>blue\<close> gives
  \<open>dark\<close>, where an absent value gives \<open>light\<close>.
\<close>

theorem startup_theme_counterexample:
  "dataset_theme (init_theme (Some True) (page_at_load\<lparr>storage := [theme_key \<mapsto> ''blue'']\<rparr>))
     = Some ''dark'' \<and>
   dataset_theme (init_theme (Some True) page_at_load) = Some ''light''"
  by (simp add: init_theme_def falsy_string_def getTheme_def page_at_load_def theme_key_def)

subsection \<open>The toast's single timer\<close>

lemma single_timer_toast: "single_timer s \<Longrightarrow> single_timer (snd (toast m s))"
  by (auto simp: single_timer_def toast_def mustQuery_def setTimeout_def clearTimeout_def
      split: option.splits)

lemma single_timer_fire: "single_timer s \<Longrightarrow> single_timer (fire_timer h s)"
  by (auto simp: single_timer_def fire_timer_def)

lemma single_timer_run: "single_timer s \<Longrightarrow> single_timer (run_toast evs s)"
  unfolding run_toast_def
proof (induction evs arbitrary: s)
  case Nil
  then show ?case by simp
next
  case (Cons e evs)
  have "single_timer (toast_step e s)"
    using Cons.prems by (cases e) (simp_all add: single_timer_toast single_timer_fire)
  then show ?case using Cons.IH by simp
qed

lemma toast_node_run: "(toast_node (run_toast evs s) = None) = (toast_node s = None)"
  unfolding run_toast_def
proof (induction evs arbitrary: s)
  case Nil
  then show ?case by simp
next
  case (Cons e evs)
  have "(toast_node (toast_step e s) = None) = (toast_node s = None)"
    by (cases e)
      (auto simp: toast_def mustQuery_def setTimeout_def clearTimeout_def fire_timer_def
        split: option.splits)
  then show ?case using Cons.IH by simp
qed

lemma toast_shows:
  assumes "single_timer s" and "toast_node s \<noteq> None"
  shows "fst (toast m s) = None \<and>
    map_option textContent (toast_node (snd (toast m s))) = Some m \<and>
    map_option hidden (toast_node (snd (toast m s))) = Some False \<and>
    timers (snd (toast m s)) = [(toast_t (snd (toast m s)), 2200)] \<and>
    toast_t s \<notin> fst ` set (timers (snd (toast m s))) \<and>
    map_option hidden
      (toast_node (fire_timer (toast_t (snd (toast m s))) (snd (toast m s)))) = Some True \<and>
    map_option textContent
      (toast_node (fire_timer (toast_t (snd (toast m s))) (snd (toast m s)))) = Some m \<and>
    timers (fire_timer (toast_t (snd (toast m s))) (snd (toast m s))) = []"
  using assms
  by (auto simp: single_timer_def toast_def mustQuery_def setTimeout_def clearTimeout_def
      fire_timer_def split: option.splits)

text \<open>
  C9. Start from a page with at most the toast's own timeout pending (as when the script
  is loaded). After any sequence of toast calls and timeouts run by the browser, at most
  one timeout is pending. A further call \<open>toast(m)\<close> on a page that has the toast
  element does not throw, shows \<open>m\<close>, unhides the element and leaves exactly one
  timeout pending: a new one, of 2200 ms, under the handle now in \<open>toast._t\<close>; the
  handle of the earlier toast is no longer pending. When that timeout runs, the element
  is hidden, still holding \<open>m\<close>, and no timeout is left.
\<close>

theorem toast_timer_reset:
  assumes "single_timer s"
  shows "length (timers (run_toast evs s)) \<le> 1 \<and>
    (toast_node s \<noteq> None \<longrightarrow>
      (let before = run_toast evs s; after = run_toast (evs @ [CallToast m]) s;
           fired = fire_timer (toast_t after) after
       in fst (toast m before) = None \<and>
          map_option textContent (toast_node after) = Some m \<and>
          map_option hidden (toast_node after) = Some False \<and>
          timers after = [(toast_t after, 2200)] \<and>
          toast_t before \<notin> fst ` set (timers after) \<and>
          map_option hidden (toast_node fired) = Some True \<and>
          map_option textContent (toast_node fired) = Some m \<and>
          timers fired = []))"
proof -
  have inv: "single_timer (run_toast evs s)"
    using assms by (rule single_timer_run)
  have len: "length (timers (run_toast evs s)) \<le> 1"
    using inv by (auto simp: single_timer_def)
  have app: "run_toast (evs @ [CallToast m]) s = snd (toast m (run_toast evs s))"
    by (simp add: run_toast_def)
  show ?thesis
  proof (cases "toast_node s = None")
    case True
    then show ?thesis using len by simp
  next
    case False
    then have "toast_node (run_toast evs s) \<noteq> None"
      by (simp add: toast_node_run)
    from toast_shows [OF inv this, of m] len show ?thesis
      unfolding Let_def app by blast
  qed
qed

theorem toast_timer_reset_witness:
  "single_timer page_at_load \<and> toast_node page_at_load \<noteq> None \<and>
   timers (run_toast [CallToast ''a'', CallToast ''b''] page_at_load) = [(2, 2200)] \<and>
   map_option textContent (toast_node (run_toast [CallToast ''a'', CallToast ''b''] page_at_load))
     = Some ''b'' \<and>
   timers (run_toast [CallToast ''a'', CallToast ''b'', TimerFires 2] page_at_load) = []"
proof -
  have h: "single_timer page_at_load"
    by (simp add: single_timer_def page_at_load_def)
  have n: "toast_node page_at_load \<noteq> None"
    by (simp add: page_at_load_def)
  have t: "toast_t (run_toast [CallToast ''a'', CallToast ''b''] page_at_load) = 2"
    by (simp add: run_toast_def toast_def mustQuery_def setTimeout_def clearTimeout_def
        page_at_load_def)
  have f: "run_toast [CallToast ''a'', CallToast ''b'', TimerFires 2] page_at_load
      = fire_timer 2 (run_toast [CallToast ''a'', CallToast ''b''] page_at_load)"
    by (simp add: run_toast_def)
  from toast_timer_reset [OF h, of "[CallToast ''a'']" "''b''"] n t f h
  show ?thesis by (simp add: Let_def)
qed

subsection \<open>The temporary element of the copy fallback\<close>

lemma fallback_attach_body:
  assumes "nodes_known s"
  shows "fallback_attach t s = (next_node s, s\<lparr>next_node := next_node s + 1,
     body := body s @ [\<lparr>node = next_node s, ta_value = copy_text t,
        style_position = ''fixed'', style_left = ''-9999px'', selected = True\<rparr>]\<rparr>)"
proof -
  have "map (\<lambda>c. if node c = next_node s then c\<lparr>selected := True\<rparr> else c) (body s) = body s"
    using assms by (intro map_idI) (auto simp: nodes_known_def list_all_iff)
  then show ?thesis
    by (simp add: fallback_attach_def createElement_def appendChild_def select_node_def)
qed

lemma copy_fallback_paths:
  assumes "nodes_known s"
  shows "copy_fallback t execCommand s =
     (let attached = s\<lparr>next_node := next_node s + 1,
            body := body s @ [\<lparr>node = next_node s, ta_value = copy_text t,
              style_position = ''fixed'', style_left = ''-9999px'', selected = True\<rparr>]\<rparr>
      in case execCommand attached of
           Throws e \<Rightarrow> (Some e, attached)
         | Returns ok \<Rightarrow>
             toast (if ok then copy_label t @ msg_copied else copy_label t @ msg_copy_failed)
               (attached\<lparr>body := body s\<rparr>))"
proof -
  have "filter (\<lambda>c. node c \<noteq> next_node s) (body s) = body s"
    using assms by (auto simp: nodes_known_def list_all_iff intro!: filter_True)
  then show ?thesis
    by (simp add: copy_fallback_def fallback_attach_body [OF assms] removeChild_def Let_def
        split: exec_result.splits)
qed

text \<open>
  Where \<open>execCommand\<close> returns, the temporary node is gone when the call ends, whether
  the final toast throws or not; where it throws, the call ends with that exception
  and the node is still the last child of the body.
\<close>

lemma copy_rejected_returns:
  assumes "nodes_known s"
    and "execCommand (snd (fallback_attach t s)) = Returns ok"
  shows "body (snd (copyToClipboard t Rejected execCommand s)) = body s \<and>
    next_node (snd (copyToClipboard t Rejected execCommand s)) = next_node s + 1"
  using assms(2)
  by (simp add: copyToClipboard_def copy_fallback_paths [OF assms(1)]
      fallback_attach_body [OF assms(1)] Let_def toast_body toast_next_node)

lemma copy_rejected_throws:
  assumes "nodes_known s"
    and "execCommand (snd (fallback_attach t s)) = Throws e"
  shows "copyToClipboard t Rejected execCommand s = (Some e, snd (fallback_attach t s)) \<and>
    body (snd (copyToClipboard t Rejected execCommand s)) =
      body s @ [\<lparr>node = next_node s, ta_value = copy_text t, style_position = ''fixed'',
        style_left = ''-9999px'', selected = True\<rparr>]"
  using assms(2)
  by (simp add: copyToClipboard_def copy_fallback_paths [OF assms(1)]
      fallback_attach_body [OF assms(1)] Let_def)

text \<open>
  C5 fails on the code where \<open>execCommand\<close> throws. On the page as loaded, with the
  clipboard write rejected and \<open>execCommand\<close> throwing, \<open>copyToClipboard\<close> ends with
  that exception, and the one node it created, the selected off-screen \<open>textarea\<close>
  holding the text, is still a child of the body: the \<open>removeChild\<close> after
  \<open>execCommand\<close> is not reached.
\<close>

theorem copy_rejected_exec_throws_attached:
  "copyToClipboard \<lparr>copy_text = ''x'', copy_label = ''l''\<rparr> Rejected
     (\<lambda>s. Throws (Thrown ''NotSupportedError'')) page_at_load =
   (Some (Thrown ''NotSupportedError''),
    page_at_load\<lparr>next_node := 1,
      body := [\<lparr>node = 0, ta_value = ''x'', style_position = ''fixed'',
                style_left = ''-9999px'', selected = True\<rparr>]\<rparr>)"
  by (simp add: copyToClipboard_def copy_fallback_def fallback_attach_def createElement_def
      appendChild_def select_node_def page_at_load_def)

subsection \<open>The section spy\<close>

lemma count_update:
  "\<forall>a\<in>set ls. \<not> P a \<Longrightarrow> length (filter P (ls[i := x])) \<le> 1"
proof (induction ls arbitrary: i)
  case Nil then show ?case by simp
next
  case (Cons a ls)
  then show ?case by (cases i) (auto simp: filter_empty_conv)
qed

lemma map_of_map_set: "map_of (map_set k v m) = (map_of m)(k \<mapsto> v)"
  by (induction m) (auto simp: fun_eq_iff)


lemma index_links_skip:
  "\<forall>a\<in>set as. link_id a \<noteq> k \<Longrightarrow> map_of (index_links as n m) k = map_of m k"
  by (induction as arbitrary: n m) (auto simp: Let_def map_of_map_set)

lemma index_links_last:
  "i < length as \<Longrightarrow> link_id (as ! i) = k \<Longrightarrow> k \<noteq> [] \<Longrightarrow>
   \<forall>j<length as. i < j \<longrightarrow> link_id (as ! j) \<noteq> k \<Longrightarrow>
   map_of (index_links as n m) k = Some (n + i)"
proof (induction as arbitrary: n m i)
  case Nil
  then show ?case by simp
next
  case (Cons a as)
  show ?case
  proof (cases i)
    case 0
    have "\<forall>b\<in>set as. link_id b \<noteq> k"
    proof
      fix b assume "b \<in> set as"
      then obtain j where "j < length as" "as ! j = b" by (auto simp: in_set_conv_nth)
      with Cons.prems(4) [rule_format, of "Suc j"] 0 show "link_id b \<noteq> k" by auto
    qed
    from index_links_skip [OF this] Cons.prems 0 show ?thesis
      by (simp add: Let_def map_of_map_set)
  next
    case (Suc i')
    have "\<forall>j<length as. i' < j \<longrightarrow> link_id (as ! j) \<noteq> k"
      using Cons.prems(4) Suc by auto
    from Cons.IH [of i' "n + 1", OF _ _ Cons.prems(3) this] Cons.prems Suc
    show ?thesis by simp
  qed
qed

lemma setActive_marks:
  assumes "map_get (idToLink t) k = Some i" and "i < length (links t)"
  shows "length (links (setActive k t)) = length (links t) \<and>
     (\<forall>j<length (links t). is_active (links (setActive k t) ! j) = (j = i))"
  using assms
  by (auto simp: setActive_def Let_def nth_list_update is_active_def add_token_def remove_token_def)



lemma example_link_ids:
  "map link_id example_links = [''intro'', ''flow'', ''faq'', ''https://example.org/'']"
  by (simp add: example_links_def link_id_def or_empty_def trim_def white_space_def
      strip_leading.simps)

lemma example_toc_built: "toc_built example_toc"
  using example_link_ids
  by (simp add: toc_built_def example_toc_def example_links_def Let_def)

lemma example_init:
  "initTocSpy (Some example_links) [''toast'', ''toc'', ''intro'', ''flow'', ''faq''] = Inr example_toc"
  using example_link_ids
  by (simp add: initTocSpy_def mustQuery_def example_toc_def example_links_def Let_def
      List.map_filter_def getElementById_def)


lemma index_links_cong:
  "map link_id ls = map link_id ls' \<Longrightarrow> index_links ls n m = index_links ls' n m"
proof (induction ls arbitrary: ls' n m)
  case Nil
  then show ?case by simp
next
  case (Cons a ls)
  then obtain b rest where "ls' = b # rest" by (cases ls') auto
  with Cons show ?case by simp
qed

lemma link_id_classList: "link_id (a\<lparr>classList := c\<rparr>) = link_id a"
  by (simp add: link_id_def)

lemma map_update_same:
  assumes "i < length xs \<Longrightarrow> f x = f (xs ! i)"
  shows "map f (xs[i := x]) = map f xs"
proof (rule nth_equalityI)
  show "length (map f (xs[i := x])) = length (map f xs)" by simp
next
  fix j assume "j < length (map f (xs[i := x]))"
  then have j: "j < length xs" by simp
  then show "map f (xs[i := x]) ! j = map f xs ! j"
    using assms by (cases "i = j") simp_all
qed

lemma setActive_link_ids: "map link_id (links (setActive k t)) = map link_id (links t)"
proof -
  define ls where "ls = map (\<lambda>a. a\<lparr>classList := remove_token ''is-active'' (classList a)\<rparr>) (links t)"
  have ls: "map link_id ls = map link_id (links t)"
    by (simp add: ls_def link_id_classList o_def)
  have upd: "map link_id (ls[i := (ls ! i)\<lparr>classList := c\<rparr>]) = map link_id (links t)" for i c
    using map_update_same [of i ls link_id "(ls ! i)\<lparr>classList := c\<rparr>"] ls
    by (simp add: link_id_classList)
  have "links (setActive k t) = ls \<or> (\<exists>i c. links (setActive k t) = ls[i := (ls ! i)\<lparr>classList := c\<rparr>])"
    by (cases "map_get (idToLink t) k") (auto simp: setActive_def Let_def ls_def)
  then show ?thesis
    using ls upd by auto
qed

lemma setActive_fields:
  "idToLink (setActive k t) = idToLink t \<and> sections (setActive k t) = sections t \<and>
   doc_ids (setActive k t) = doc_ids t"
  by (simp add: setActive_def Let_def split: option.splits)

lemma toc_built_setActive:
  assumes "toc_built t"
  shows "toc_built (setActive k t)"
proof -
  have "index_links (links (setActive k t)) 0 [] = index_links (links t) 0 []"
    by (rule index_links_cong) (rule setActive_link_ids)
  moreover have "idToLink t = index_links (links t) 0 []"
    and "list_all (\<lambda>k. k \<in> fst ` set (idToLink t)) (sections t)"
    using assms by (auto simp: toc_built_def)
  ultimately show ?thesis
    unfolding toc_built_def using setActive_fields [of k t] by metis
qed

lemma spy_step_cases: "spy_step e t = t \<or> (\<exists>k. spy_step e t = setActive k t)"
  by (cases e) (auto simp: io_callback_def toc_click_def Let_def split: list.splits option.splits)

lemma toc_built_run: "toc_built t \<Longrightarrow> toc_built (run_spy evs t)"
  unfolding run_spy_def
proof (induction evs arbitrary: t)
  case Nil
  then show ?case by simp
next
  case (Cons e evs)
  have "toc_built (spy_step e t)"
    using spy_step_cases [of e t] Cons.prems toc_built_setActive by auto
  then show ?case using Cons.IH by simp
qed

lemma toc_built_init: "initTocSpy toc_el ids = Inr t \<Longrightarrow> toc_built t"
  by (auto simp: initTocSpy_def mustQuery_def toc_built_def Let_def list_all_iff
      List.map_filter_def getElementById_def split: option.splits if_splits)




text \<open>The scenario of the specification: of the ratios 0.2, 0.6 and 0.4 the second wins.\<close>

lemma example_callback:
  "map is_active (links (io_callback example_entries example_toc)) = [False, True, False, False]"
  by (simp add: io_callback_def example_entries_def or_zero_def example_toc_def
      example_links_def setActive_def map_get_def Let_def is_active_def add_token_def
      remove_token_def)

lemma setActive_count: "count_active (setActive k t) \<le> 1"
proof -
  let ?ls = "map (\<lambda>a. a\<lparr>classList := remove_token ''is-active'' (classList a)\<rparr>) (links t)"
  have clear: "\<forall>a\<in>set ?ls. \<not> is_active a"
    by (auto simp: is_active_def remove_token_def)
  then have z: "filter is_active ?ls = []" by (simp add: filter_empty_conv)
  show ?thesis
  proof (cases "map_get (idToLink t) k")
    case None
    then show ?thesis using z by (simp add: setActive_def count_active_def)
  next
    case (Some i)
    then show ?thesis using count_update [OF clear]
      by (simp add: setActive_def count_active_def Let_def)
  qed
qed

lemma setActive_unknown: "map_get (idToLink t) k = None \<Longrightarrow> count_active (setActive k t) = 0"
  by (auto simp: setActive_def count_active_def is_active_def remove_token_def filter_empty_conv)

lemma run_spy_count: "count_active t \<le> 1 \<Longrightarrow> count_active (run_spy evs t) \<le> 1"
  unfolding run_spy_def
proof (induction evs arbitrary: t)
  case Nil then show ?case by simp
next
  case (Cons e evs)
  have "count_active (spy_step e t) \<le> 1"
    using spy_step_cases [of e t] Cons.prems setActive_count by auto
  then show ?case using Cons.IH by simp
qed

lemma run_spy_same_or_one: "run_spy evs t = t \<or> count_active (run_spy evs t) \<le> 1"
proof (induction evs arbitrary: t)
  case Nil then show ?case by (simp add: run_spy_def)
next
  case (Cons e evs)
  have step: "run_spy (e # evs) t = run_spy evs (spy_step e t)"
    by (simp add: run_spy_def)
  from spy_step_cases [of e t] show ?case
  proof
    assume "spy_step e t = t"
    with Cons.IH [of t] step show ?thesis by simp
  next
    assume "\<exists>k. spy_step e t = setActive k t"
    then have "count_active (spy_step e t) \<le> 1" using setActive_count by auto
    from run_spy_count [OF this] step show ?thesis by simp
  qed
qed

text \<open>
  C10, as the code has it. \<open>setActive\<close> leaves at most one link marked, whatever was
  marked before, and none when the id has no link. Every event of the spy either leaves
  the state as it is or is one call of \<open>setActive\<close>. So from a table of contents with at
  most one marked link every sequence of events leads to one with at most one marked
  link; and from any table of contents, after any sequence of events, either nothing
  has changed or at most one link is marked.
\<close>

theorem spy_at_most_one_active:
  "count_active (setActive k t) \<le> 1 \<and>
   (map_get (idToLink t) k = None \<longrightarrow> count_active (setActive k t) = 0) \<and>
   (spy_step e t = t \<or> (\<exists>k'. spy_step e t = setActive k' t)) \<and>
   (count_active t \<le> 1 \<longrightarrow> count_active (run_spy evs t) \<le> 1) \<and>
   (run_spy evs t = t \<or> count_active (run_spy evs t) \<le> 1)"
  using setActive_count setActive_unknown spy_step_cases run_spy_count run_spy_same_or_one
  by blast

theorem spy_at_most_one_active_witness:
  "count_active example_toc \<le> 1 \<and>
   count_active (run_spy [Intersections example_entries,
       Click \<lparr>target_is_html = True, nearest_anchor = TocLink 2\<rparr>,
       Click \<lparr>target_is_html = True, nearest_anchor = TocLink 3\<rparr>]
     example_toc) \<le> 1 \<and>
   map_get (idToLink example_toc) ''nowhere'' = None \<and>
   count_active (setActive ''nowhere'' example_toc) = 0"
proof -
  have c: "count_active example_toc \<le> 1"
    by (simp add: count_active_def example_toc_def example_links_def is_active_def)
  have n: "map_get (idToLink example_toc) ''nowhere'' = None"
    by (simp add: map_get_def example_toc_def)
  from spy_at_most_one_active [of "''nowhere''" example_toc
      "Click \<lparr>target_is_html = True, nearest_anchor = NoAnchor\<rparr>"
      "[Intersections example_entries,
        Click \<lparr>target_is_html = True, nearest_anchor = TocLink 2\<rparr>,
        Click \<lparr>target_is_html = True, nearest_anchor = TocLink 3\<rparr>]"] c n
  show ?thesis by blast
qed

text \<open>
  C10 as the claim has it fails on a page whose markup marks two links: in the state
  \<open>initTocSpy\<close> builds for it, an update without an intersecting entry and a click
  outside every anchor leave both marked.
\<close>

theorem spy_at_most_one_active_counterexample:
  "initTocSpy (Some (links two_marked)) [''a'', ''b''] = Inr two_marked \<and>
   count_active (run_spy [Intersections [],
       Click \<lparr>target_is_html = True, nearest_anchor = NoAnchor\<rparr>] two_marked) = 2"
proof -
  have "map link_id (links two_marked) = [''a'', ''b'']"
    by (simp add: two_marked_def link_id_def or_empty_def trim_def white_space_def
        strip_leading.simps)
  then have "initTocSpy (Some (links two_marked)) [''a'', ''b''] = Inr two_marked"
    by (simp add: initTocSpy_def mustQuery_def two_marked_def Let_def List.map_filter_def
        getElementById_def)
  moreover have "count_active (run_spy [Intersections [],
       Click \<lparr>target_is_html = True, nearest_anchor = NoAnchor\<rparr>] two_marked) = 2"
    by (simp add: run_spy_def io_callback_def toc_click_def closest_a_def count_active_def
        two_marked_def is_active_def)
  ultimately show ?thesis
    by simp
qed

lemma toc_click_link:
  assumes "i < length (links t)" and "h = or_empty (href (links t ! i))"
    and "c = \<lparr>target_is_html = html, nearest_anchor = TocLink i\<rparr>"
  shows "(\<not> html \<or> take 1 h \<noteq> ''#'' \<or> getElementById (doc_ids t) (drop 1 h) = None \<longrightarrow>
      toc_click c t = (no_effect, t)) \<and>
    (html \<and> take 1 h = ''#'' \<and> getElementById (doc_ids t) (drop 1 h) \<noteq> None \<longrightarrow>
      fst (toc_click c t) = \<lparr>defaultPrevented = True, scrolledIntoView = Some (drop 1 h)\<rparr> \<and>
      snd (toc_click c t) = setActive (drop 1 h) t \<and>
      count_active (snd (toc_click c t)) \<le> 1 \<and>
      (toc_built t \<and> trim (drop 1 h) = drop 1 h \<and>
       (\<forall>j<length (links t). i < j \<longrightarrow> link_id (links t ! j) \<noteq> drop 1 h) \<longrightarrow>
       (\<forall>j<length (links t). is_active (links (snd (toc_click c t)) ! j) = (j = i))))"
proof (intro conjI impI)
  assume "\<not> html \<or> take 1 h \<noteq> ''#'' \<or> getElementById (doc_ids t) (drop 1 h) = None"
  then show "toc_click c t = (no_effect, t)"
    using assms by (auto simp: toc_click_def closest_a_def Let_def)
next
  assume a: "html \<and> take 1 h = ''#'' \<and> getElementById (doc_ids t) (drop 1 h) \<noteq> None"
  then have el: "getElementById (doc_ids t) (drop 1 h) = Some (drop 1 h)"
    by (auto simp: getElementById_def split: if_splits)
  show f: "fst (toc_click c t) = \<lparr>defaultPrevented = True, scrolledIntoView = Some (drop 1 h)\<rparr>"
    using assms a el by (simp add: toc_click_def closest_a_def Let_def)
  show s: "snd (toc_click c t) = setActive (drop 1 h) t"
    using assms a el by (simp add: toc_click_def closest_a_def Let_def)
  show "count_active (snd (toc_click c t)) \<le> 1"
    unfolding s by (rule setActive_count)
  assume b: "toc_built t \<and> trim (drop 1 h) = drop 1 h \<and>
       (\<forall>j<length (links t). i < j \<longrightarrow> link_id (links t ! j) \<noteq> drop 1 h)"
  from a obtain r where h: "h = CHR ''#'' # r" by (cases h) auto
  have ne: "drop 1 h \<noteq> []" using a by (auto simp: getElementById_def split: if_splits)
  have "or_empty (href (links t ! i)) = CHR ''#'' # r"
    using assms(2) h by simp
  then have "link_id (links t ! i) = trim r"
    by (simp add: link_id_def)
  moreover have "drop 1 h = r"
    using h by simp
  ultimately have "link_id (links t ! i) = drop 1 h"
    using b by simp
  from index_links_last [OF assms(1) this ne, of 0 "[]"] b
  have "map_get (idToLink t) (drop 1 h) = Some i"
    by (simp add: map_get_def toc_built_def)
  from setActive_marks [OF this assms(1)] s
  show "\<forall>j<length (links t). is_active (links (snd (toc_click c t)) ! j) = (j = i)"
    by simp
qed

text \<open>
  C2, as the code has it. Take a click whose nearest anchor is a link of the table of
  contents, in the state \<open>initTocSpy\<close> built, after any events. If the click's target
  is not an HTML element, or the link's \<open>href\<close> is missing or does not start with
  \<open>#\<close>, or no element has the rest of the \<open>href\<close> as its id, the handler does nothing:
  the default navigation is not cancelled, nothing is scrolled, no marker changes.
  Otherwise it cancels the default navigation, scrolls that element into view and at
  once calls \<open>setActive\<close> with that id, after which at most one link is marked; the
  marked link is the clicked one when the id has no white space around it and no later
  link has the same id.
\<close>

theorem toc_click_marks_link:
  assumes "initTocSpy toc_el ids = Inr t0" and "t = run_spy evs t0"
    and "i < length (links t)" and "h = or_empty (href (links t ! i))"
    and "c = \<lparr>target_is_html = html, nearest_anchor = TocLink i\<rparr>"
  shows "(\<not> html \<or> take 1 h \<noteq> ''#'' \<or> getElementById (doc_ids t) (drop 1 h) = None \<longrightarrow>
      toc_click c t = (no_effect, t)) \<and>
    (html \<and> take 1 h = ''#'' \<and> getElementById (doc_ids t) (drop 1 h) \<noteq> None \<longrightarrow>
      fst (toc_click c t) = \<lparr>defaultPrevented = True, scrolledIntoView = Some (drop 1 h)\<rparr> \<and>
      snd (toc_click c t) = setActive (drop 1 h) t \<and>
      count_active (snd (toc_click c t)) \<le> 1 \<and>
      (trim (drop 1 h) = drop 1 h \<and>
       (\<forall>j<length (links t). i < j \<longrightarrow> link_id (links t ! j) \<noteq> drop 1 h) \<longrightarrow>
       (\<forall>j<length (links t). is_active (links (snd (toc_click c t)) ! j) = (j = i))))"
proof -
  have "toc_built t"
    using assms(1,2) toc_built_init toc_built_run by blast
  with toc_click_link [OF assms(3,4,5)] show ?thesis
    by blast
qed

lemma example_after_flow:
  "\<forall>j<length (links example_toc). 1 < j \<longrightarrow> link_id (links example_toc ! j) \<noteq> ''flow''"
proof (intro allI impI)
  fix j assume "j < length (links example_toc)" and "1 < j"
  then have "j = 2 \<or> j = 3"
    by (auto simp: example_toc_def example_links_def)
  moreover have "map link_id example_links ! 2 \<noteq> ''flow''" "map link_id example_links ! 3 \<noteq> ''flow''"
    unfolding example_link_ids by simp_all
  ultimately show "link_id (links example_toc ! j) \<noteq> ''flow''"
    by (auto simp: example_toc_def example_links_def)
qed

lemma trim_flow: "trim ''flow'' = ''flow''"
  by (simp add: trim_def white_space_def strip_leading.simps)

theorem toc_click_marks_link_witness:
  "initTocSpy (Some example_links) [''toast'', ''toc'', ''intro'', ''flow'', ''faq'']
     = Inr example_toc \<and>
   1 < length (links example_toc) \<and> ''#flow'' = or_empty (href (links example_toc ! 1)) \<and>
   take 1 ''#flow'' = ''#'' \<and> getElementById (doc_ids example_toc) (drop 1 ''#flow'') \<noteq> None \<and>
   fst (toc_click \<lparr>target_is_html = True, nearest_anchor = TocLink 1\<rparr> example_toc) =
     \<lparr>defaultPrevented = True, scrolledIntoView = Some ''flow''\<rparr> \<and>
   \<not> is_active (links (snd (toc_click
       \<lparr>target_is_html = True, nearest_anchor = TocLink 1\<rparr> example_toc)) ! 0) \<and>
   is_active (links (snd (toc_click
       \<lparr>target_is_html = True, nearest_anchor = TocLink 1\<rparr> example_toc)) ! 1) \<and>
   \<not> is_active (links (snd (toc_click
       \<lparr>target_is_html = True, nearest_anchor = TocLink 1\<rparr> example_toc)) ! 2) \<and>
   \<not> is_active (links (snd (toc_click
       \<lparr>target_is_html = True, nearest_anchor = TocLink 1\<rparr> example_toc)) ! 3) \<and>
   toc_click \<lparr>target_is_html = False, nearest_anchor = TocLink 1\<rparr> example_toc =
     (no_effect, example_toc)"
proof -
  let ?c = "\<lparr>target_is_html = True, nearest_anchor = TocLink 1\<rparr>"
  let ?svg = "\<lparr>target_is_html = False, nearest_anchor = TocLink 1\<rparr>"
  have h0: "example_toc = run_spy [] example_toc"
    by (simp add: run_spy_def)
  have h1: "1 < length (links example_toc)"
    by (simp add: example_toc_def example_links_def)
  have h2: "''#flow'' = or_empty (href (links example_toc ! 1))"
    by (simp add: example_toc_def example_links_def or_empty_def)
  have h3: "take 1 ''#flow'' = ''#'' \<and>
      getElementById (doc_ids example_toc) (drop 1 ''#flow'') \<noteq> None"
    by (simp add: getElementById_def example_toc_def)
  have h4: "trim (drop 1 ''#flow'') = drop 1 ''#flow'' \<and>
      (\<forall>j<length (links example_toc). 1 < j \<longrightarrow>
         link_id (links example_toc ! j) \<noteq> drop 1 ''#flow'')"
    using trim_flow example_after_flow by simp
  from toc_click_marks_link [OF example_init h0 h1 h2, of ?c True] h3 h4
  have eff: "fst (toc_click ?c example_toc) =
      \<lparr>defaultPrevented = True, scrolledIntoView = Some (drop 1 ''#flow'')\<rparr>"
    and act: "\<forall>j<length (links example_toc).
      is_active (links (snd (toc_click ?c example_toc)) ! j) = (j = 1)"
    by blast+
  from toc_click_marks_link [OF example_init h0 h1 h2, of ?svg False]
  have svg: "toc_click ?svg example_toc = (no_effect, example_toc)"
    by blast
  have len: "length (links example_toc) = 4"
    by (simp add: example_toc_def example_links_def)
  have "\<not> is_active (links (snd (toc_click ?c example_toc)) ! 0)"
    and "is_active (links (snd (toc_click ?c example_toc)) ! 1)"
    and "\<not> is_active (links (snd (toc_click ?c example_toc)) ! 2)"
    and "\<not> is_active (links (snd (toc_click ?c example_toc)) ! 3)"
    using act len by simp_all
  moreover have "drop 1 ''#flow'' = ''flow''"
    by simp
  ultimately show ?thesis
    using eff svg example_init h1 h2 h3 by metis
qed

text \<open>
  C2 as the claim has it fails for a link that leaves the page: the click on it is not
  cancelled and marks nothing. It also fails for a click on an \<open>svg\<close> inside the link
  to \<open>#flow\<close>: the target is no HTML element, and nothing is cancelled or marked.
\<close>

theorem toc_click_marks_link_counterexample:
  "toc_click \<lparr>target_is_html = True, nearest_anchor = TocLink 3\<rparr> example_toc =
     (\<lparr>defaultPrevented = False, scrolledIntoView = None\<rparr>, example_toc) \<and>
   \<not> is_active (links (snd (toc_click
       \<lparr>target_is_html = True, nearest_anchor = TocLink 3\<rparr> example_toc)) ! 3) \<and>
   toc_click \<lparr>target_is_html = False, nearest_anchor = TocLink 1\<rparr> example_toc =
     (\<lparr>defaultPrevented = False, scrolledIntoView = None\<rparr>, example_toc) \<and>
   \<not> is_active (links (snd (toc_click
       \<lparr>target_is_html = False, nearest_anchor = TocLink 1\<rparr> example_toc)) ! 1)"
  by (simp add: toc_click_def closest_a_def example_toc_def example_links_def or_empty_def
      no_effect_def Let_def is_active_def)

subsection \<open>The accordion\<close>

text \<open>
  C8. Let a trigger button be collapsed (its \<open>aria-expanded\<close> is not \<open>true\<close>) and let
  its next element sibling be an HTML element, the panel. A click on the button sets
  \<open>aria-expanded\<close> to \<open>true\<close> and shows the panel; a second click sets it to \<open>false\<close>
  and hides the panel; neither click changes any other element. A click for which no
  trigger button is found changes nothing.
\<close>

theorem accordion_toggle:
  assumes "nextElementSibling (els b) = Some p" and "is_html (els p)"
    and "aria_expanded (els b) \<noteq> Some ''true''"
  shows "aria_expanded (acc_click (Some b) els b) = Some ''true'' \<and>
     \<not> el_hidden (acc_click (Some b) els p) \<and>
     aria_expanded (acc_click (Some b) (acc_click (Some b) els) b) = Some ''false'' \<and>
     el_hidden (acc_click (Some b) (acc_click (Some b) els) p) \<and>
     (\<forall>x. x \<noteq> b \<and> x \<noteq> p \<longrightarrow>
        acc_click (Some b) els x = els x \<and>
        acc_click (Some b) (acc_click (Some b) els) x = els x) \<and>
     acc_click None els = els"
  using assms by (auto simp: acc_click_def Let_def)

theorem accordion_toggle_witness:
  "nextElementSibling (example_faq 0) = Some 1 \<and> is_html (example_faq 1) \<and>
   aria_expanded (example_faq 0) \<noteq> Some ''true'' \<and>
   aria_expanded (acc_click (Some 0) example_faq 0) = Some ''true'' \<and>
   \<not> el_hidden (acc_click (Some 0) example_faq 1) \<and>
   aria_expanded (acc_click (Some 0) (acc_click (Some 0) example_faq) 0) = Some ''false'' \<and>
   el_hidden (acc_click (Some 0) (acc_click (Some 0) example_faq) 1)"
  using accordion_toggle [of example_faq 0 1]
  by (simp add: example_faq_def)

subsection \<open>Startup\<close>

text \<open>
  C4, as the code has it. Without the \<open>#toc\<close> element \<open>main\<close> throws
  \<open>Missing element: #toc\<close>, after \<open>initThemeToggle\<close> and before the other
  initialisers, so that no accordion, copy or scroll handler is bound. With \<open>#toc\<close>
  present \<open>main\<close> does not throw, whatever else is missing, the toast element included:
  the toast element is looked up only when a toast is shown, and it is then that
  \<open>Missing element: #toast\<close> is thrown, the page left as it was. A missing optional
  element makes its initialiser do nothing.
\<close>

theorem startup_missing_elements:
  "(toc_anchors d = None \<longrightarrow>
      main d mm a = (Some (MissingElement ''#toc''), initThemeToggle d mm a)) \<and>
   (buttons d ''toggleTheme'' = None \<longrightarrow>
      listeners (initThemeToggle d mm a) = listeners a) \<and>
   (toc_anchors d \<noteq> None \<longrightarrow> fst (main d mm a) = None) \<and>
   (toast_node s = None \<longrightarrow> toast m s = (Some (MissingElement ''#toast''), s)) \<and>
   (\<not> has_accordion d \<longrightarrow> initAccordion d a = a) \<and>
   (buttons d ident = None \<longrightarrow> bind d ident lbl a = a) \<and>
   (buttons d ''copySignup'' = None \<and> buttons d ''copyRepo'' = None \<and>
    buttons d ''copyChecklist'' = None \<and> buttons d ''copyAllLinks'' = None \<longrightarrow>
      initCopyButtons d a = a) \<and>
   (buttons d ''scrollFlow'' = None \<and> buttons d ''backTop'' = None \<longrightarrow>
      initQuickScroll d a = a)"
  by (auto simp: main_def initTocSpy_app_def initTocSpy_def mustQuery_def initThemeToggle_def
      toast_def initAccordion_def bind_def initCopyButtons_def initQuickScroll_def Let_def
      addEventListener_def)

theorem startup_missing_elements_witness:
  "toc_anchors (example_dom\<lparr>toc_anchors := None\<rparr>) = None \<and>
   main (example_dom\<lparr>toc_anchors := None\<rparr>) None (app_start page_at_load) =
     (Some (MissingElement ''#toc''),
      initThemeToggle (example_dom\<lparr>toc_anchors := None\<rparr>) None (app_start page_at_load)) \<and>
   toc_anchors example_dom \<noteq> None \<and>
   fst (main example_dom None (app_start page_at_load)) = None \<and>
   \<not> has_accordion example_dom \<and>
   initAccordion example_dom (app_start page_at_load) = app_start page_at_load \<and>
   toast_node (page_at_load\<lparr>toast_node := None\<rparr>) = None \<and>
   toast ''x'' (page_at_load\<lparr>toast_node := None\<rparr>) =
     (Some (MissingElement ''#toast''), page_at_load\<lparr>toast_node := None\<rparr>)"
  using startup_missing_elements [of "example_dom\<lparr>toc_anchors := None\<rparr>" None
      "app_start page_at_load" "page_at_load\<lparr>toast_node := None\<rparr>" "''x''" "''none''" "[]"]
    startup_missing_elements [of example_dom None "app_start page_at_load"
      "page_at_load\<lparr>toast_node := None\<rparr>" "''x''" "''none''" "[]"]
  by (simp add: example_dom_def)

text \<open>
  C4 as the claim has it fails for the toast: on a page without the toast element
  \<open>main\<close> returns without an error and has bound the theme toggle; the error comes
  with the first click on it.
\<close>

theorem startup_missing_elements_counterexample:
  "fst (main example_dom None (app_start (page_at_load\<lparr>toast_node := None\<rparr>))) = None \<and>
   ToggleThemeClick \<in> set (listeners (snd (main example_dom None
     (app_start (page_at_load\<lparr>toast_node := None\<rparr>))))) \<and>
   fst (toggle_click (app_page (snd (main example_dom None
     (app_start (page_at_load\<lparr>toast_node := None\<rparr>)))))) = Some (MissingElement ''#toast'')"
  by (simp add: main_def initTocSpy_app_def initTocSpy_def mustQuery_def initThemeToggle_def
      toast_def initAccordion_def bind_def initCopyButtons_def initQuickScroll_def Let_def
      addEventListener_def example_dom_def app_start_def page_at_load_def init_theme_def
      falsy_string_def toggle_click_def setTheme_def getTheme_def)

end
